theory Spec2Isabelle
  imports Main
begin

section \<open>The values a caller can hand to the hook\<close>

text \<open>
  \<^verbatim>\<open>useWindowOrientation\<close> is typed in TypeScript, but its checks run on
  whatever value a JavaScript caller passes. The values modelled are the primitives
  and plain data objects: \<^verbatim>\<open>undefined\<close>, \<^verbatim>\<open>null\<close>, booleans, numbers,
  strings, symbols, and ordinary objects whose prototype is \<^verbatim>\<open>Object.prototype\<close>
  and whose own properties are data properties. An object is the table of its own
  properties; \<open>map_of\<close> reads it.

  The hook does no arithmetic on a value it is handed: it takes its \<^verbatim>\<open>typeof\<close>,
  compares it with two strings and prints it. A number is therefore given by the
  string the language prints for it: \<^verbatim>\<open>42\<close> is \<open>JNum ''42''\<close>, \<^verbatim>\<open>0.5\<close> is
  \<open>JNum ''0.5''\<close>, \<^verbatim>\<open>1e21\<close> is \<open>JNum ''1e+21''\<close>, and \<^verbatim>\<open>NaN\<close> is
  \<open>JNum ''NaN''\<close>.
\<close>

datatype jsval =
    JUndefined
  | JNull
  | JBool bool
  | JNum string
  | JStr string
  | JSym
  | JObj "(string \<times> jsval) list"

text \<open>The \<^verbatim>\<open>typeof\<close> operator; \<^verbatim>\<open>typeof null\<close> is \<^verbatim>\<open>"object"\<close>.\<close>

fun typeof :: "jsval \<Rightarrow> string" where
  "typeof JUndefined = ''undefined''"
| "typeof JNull = ''object''"
| "typeof (JBool b) = ''boolean''"
| "typeof (JNum n) = ''number''"
| "typeof (JStr s) = ''string''"
| "typeof JSym = ''symbol''"
| "typeof (JObj ps) = ''object''"

text \<open>
  What is thrown. \<open>TypeError m\<close> is a \<^verbatim>\<open>new TypeError(m)\<close> of the hook's own, with
  the message the source gives it. \<open>RuntimeTypeError\<close> is a \<^verbatim>\<open>TypeError\<close> raised by
  the JavaScript runtime itself (destructuring \<^verbatim>\<open>null\<close>, converting a symbol to a
  string); its message is the engine's, not one the source writes.
  \<open>ReferenceError\<close> is the runtime's error for reading the global \<^verbatim>\<open>window\<close>
  where none is defined.
\<close>

datatype js_error = TypeError string | RuntimeTypeError | ReferenceError

subsection \<open>String conversion in a template literal\<close>

text \<open>
  \<^verbatim>\<open>${v}\<close> applies the language's ToString. It throws for a symbol. For an
  ordinary object it calls the object's \<^verbatim>\<open>toString\<close>: the inherited one answers
  \<^verbatim>\<open>"[object Object]"\<close>; an own data property of that name is not callable here,
  \<^verbatim>\<open>valueOf\<close> then gives no primitive either, and the conversion throws.
\<close>

fun ToString :: "jsval \<Rightarrow> js_error + string" where
  "ToString JUndefined = Inr ''undefined''"
| "ToString JNull = Inr ''null''"
| "ToString (JBool b) = Inr (if b then ''true'' else ''false'')"
| "ToString (JNum n) = Inr n"
| "ToString (JStr s) = Inr s"
| "ToString JSym = Inl RuntimeTypeError"
| "ToString (JObj ps) =
     (if map_of ps ''toString'' = None then Inr ''[object Object]'' else Inl RuntimeTypeError)"

section \<open>The hook's types\<close>

text \<open>\<^verbatim>\<open>type Orientation = "portrait" | "landscape"\<close>\<close>

datatype Orientation = Portrait | Landscape

fun orientation_string :: "Orientation \<Rightarrow> string" where
  "orientation_string Portrait = ''portrait''"
| "orientation_string Landscape = ''landscape''"

text \<open>\<^verbatim>\<open>interface OrientationResults\<close>\<close>

record OrientationResults =
  orientation :: Orientation
  portrait :: bool
  landscape :: bool

section \<open>The world a component instance lives in\<close>

text \<open>
  Modelled from the spec: \<^verbatim>\<open>lodash.debounce\<close>, which the source imports, is not
  under src/. The state of a debounced function, after the spec's design note: idle,
  or pending with the time its timer expires and whether a call arrived since the
  last invocation.
\<close>

datatype debounce_state = Idle | Pending nat bool

text \<open>
  \<open>window\<close>: the host's \<^verbatim>\<open>(innerWidth, innerHeight)\<close>, \<open>None\<close> where there
  is no \<^verbatim>\<open>window\<close> global. \<open>cell\<close>: the \<^verbatim>\<open>useState\<close> cell, \<open>None\<close> until
  the first render creates it. \<open>handler\<close>: the debounced \<^verbatim>\<open>handleResize\<close> the
  effect creates. \<open>subscribed\<close>: \<^verbatim>\<open>handleResize\<close> is registered for the window's
  \<^verbatim>\<open>resize\<close> event. \<open>recomputes\<close>: how many times the function wrapped by
  \<^verbatim>\<open>debounce\<close> has been entered (a counter for reasoning, not in the source).
\<close>

record world =
  window :: "(int \<times> int) option"
  cell :: "Orientation option"
  handler :: "debounce_state option"
  subscribed :: bool
  recomputes :: nat

definition unmounted :: "(int \<times> int) option \<Rightarrow> world" where
  "unmounted win =
     \<lparr>window = win, cell = None, handler = None, subscribed = False, recomputes = 0\<rparr>"

section \<open>Rendering: lines 22 to 39 and 62 to 66\<close>

text \<open>The parameter default \<^verbatim>\<open>options = {}\<close> applies when the argument is \<^verbatim>\<open>undefined\<close>.\<close>

definition default_options :: "jsval \<Rightarrow> jsval" where
  "default_options arg = (if arg = JUndefined then JObj [] else arg)"

text \<open>
  \<^verbatim>\<open>const { defaultOrientation = "portrait" } = options\<close>: destructuring
  \<^verbatim>\<open>null\<close> or \<^verbatim>\<open>undefined\<close> throws; the default applies when the property
  reads as \<^verbatim>\<open>undefined\<close>. A primitive has no such property.
\<close>

fun destructure :: "jsval \<Rightarrow> js_error + jsval" where
  "destructure JUndefined = Inl RuntimeTypeError"
| "destructure JNull = Inl RuntimeTypeError"
| "destructure (JObj ps) =
     (case map_of ps ''defaultOrientation'' of
        None \<Rightarrow> Inr (JStr ''portrait'')
      | Some v \<Rightarrow> if v = JUndefined then Inr (JStr ''portrait'') else Inr v)"
| "destructure v = Inr (JStr ''portrait'')"

text \<open>\<^verbatim>\<open>useState(initial)\<close>: the first render creates the cell, later ones read it.\<close>

definition useState :: "Orientation \<Rightarrow> world \<Rightarrow> Orientation \<times> world" where
  "useState initial s =
     (case cell s of
        None \<Rightarrow> (initial, s\<lparr>cell := Some initial\<rparr>)
      | Some v \<Rightarrow> (v, s))"

definition as_Orientation :: "jsval \<Rightarrow> Orientation" where
  "as_Orientation v = (if v = JStr ''portrait'' then Portrait else Landscape)"

definition results :: "Orientation \<Rightarrow> OrientationResults" where
  "results v = \<lparr>orientation = v, portrait = (v = Portrait), landscape = (v = Landscape)\<rparr>"

definition not_valid :: string where
  \<open>not_valid = '' is not a valid defaultOrientation. Use "portrait" or "landscape".''\<close>

text \<open>
  The body of the hook but for \<^verbatim>\<open>useEffect\<close>, which only records the effect;
  React runs it after the first render (\<open>activate\<close> below).
\<close>

definition useWindowOrientation ::
  "jsval \<Rightarrow> world \<Rightarrow> (js_error + OrientationResults) \<times> world" where
  "useWindowOrientation arg s =
     (let options = default_options arg in
      if typeof options \<noteq> ''object'' then
        (Inl (TypeError ''The options argument must be formatted as an object.''), s)
      else
        case destructure options of
          Inl e \<Rightarrow> (Inl e, s)
        | Inr defaultOrientation \<Rightarrow>
            if defaultOrientation \<noteq> JStr ''portrait'' \<and> defaultOrientation \<noteq> JStr ''landscape''
            then
              (let isString = (typeof defaultOrientation = ''string'') in
               case ToString defaultOrientation of
                 Inl e \<Rightarrow> (Inl e, s)
               | Inr str \<Rightarrow>
                   (Inl (TypeError
                      ((if isString then [CHR 0x22] else []) @ str @
                       (if isString then [CHR 0x22] else []) @ not_valid)), s))
            else
              (let (v, s') = useState (as_Orientation defaultOrientation) s
               in (Inr (results v), s')))"

section \<open>The effect: lines 41 to 60\<close>

text \<open>
  The function handed to \<^verbatim>\<open>debounce\<close> (lines 43 to 49). Reading
  \<^verbatim>\<open>window.innerWidth\<close> where no \<^verbatim>\<open>window\<close> exists throws.
\<close>

definition recompute :: "world \<Rightarrow> js_error option \<times> world" where
  "recompute s =
     (let s1 = s\<lparr>recomputes := recomputes s + 1\<rparr> in
      case window s1 of
        None \<Rightarrow> (Some ReferenceError, s1)
      | Some (innerWidth, innerHeight) \<Rightarrow>
          if innerWidth \<le> innerHeight then (None, s1\<lparr>cell := Some Portrait\<rparr>)
          else (None, s1\<lparr>cell := Some Landscape\<rparr>))"

text \<open>
  Modelled from the spec: a call of the function \<^verbatim>\<open>lodash.debounce\<close> returns
  (the package is not under src/), configured with leading and trailing edge. In the
  idle state the call fires at once and starts a timer of \<open>wait\<close> time units; while
  pending it is recorded and does not fire. The first component says whether the
  wrapped function is invoked now.
\<close>

definition debounced_call :: "nat \<Rightarrow> nat \<Rightarrow> debounce_state \<Rightarrow> bool \<times> debounce_state" where
  "debounced_call wait t d =
     (case d of
        Idle \<Rightarrow> (True, Pending (t + wait) False)
      | Pending deadline latest \<Rightarrow> (False, Pending deadline True))"

text \<open>
  Modelled from the spec: the timer of the debounced function expires. One more
  invocation fires (the trailing edge) if a call was recorded while pending; the
  state is idle again.
\<close>

definition timer_expired :: "debounce_state \<Rightarrow> bool \<times> debounce_state" where
  "timer_expired d =
     (case d of
        Idle \<Rightarrow> (False, Idle)
      | Pending deadline latest \<Rightarrow> (latest, Idle))"

text \<open>
  Modelled from the spec: \<^verbatim>\<open>cancel()\<close> of the debounced function discards any
  pending trailing invocation.
\<close>

definition cancel :: "debounce_state \<Rightarrow> debounce_state" where
  "cancel d = Idle"

text \<open>
  A call of \<^verbatim>\<open>handleResize\<close> at time \<open>t\<close>: the function of lines 43 to 49 behind
  \<^verbatim>\<open>debounce(_, 400, { leading: true, trailing: true })\<close>.
\<close>

definition handleResize :: "nat \<Rightarrow> world \<Rightarrow> js_error option \<times> world" where
  "handleResize t s =
     (case handler s of
        None \<Rightarrow> (None, s)
      | Some d \<Rightarrow>
          (let (fire, d') = debounced_call 400 t d;
               s' = s\<lparr>handler := Some d'\<rparr>
           in if fire then recompute s' else (None, s')))"

text \<open>Time passes up to \<open>t\<close>: a timer that is due runs.\<close>

definition run_timers :: "nat \<Rightarrow> world \<Rightarrow> js_error option \<times> world" where
  "run_timers t s =
     (case handler s of
        Some (Pending deadline latest) \<Rightarrow>
          if deadline \<le> t then
            (let (fire, d') = timer_expired (Pending deadline latest);
                 s' = s\<lparr>handler := Some d'\<rparr>
             in if fire then recompute s' else (None, s'))
          else (None, s)
      | _ \<Rightarrow> (None, s))"

text \<open>
  The effect's body (lines 42 to 54), run at time \<open>t\<close>: create the debounced
  function, call it once, register it on \<^verbatim>\<open>window\<close>.
\<close>

definition effect :: "nat \<Rightarrow> world \<Rightarrow> js_error option \<times> world" where
  "effect t s =
     (case handleResize t (s\<lparr>handler := Some Idle\<rparr>) of
        (Some e, s1) \<Rightarrow> (Some e, s1)
      | (None, s1) \<Rightarrow>
          (case window s1 of
             None \<Rightarrow> (Some ReferenceError, s1)
           | Some _ \<Rightarrow> (None, s1\<lparr>subscribed := True\<rparr>)))"

text \<open>The effect's cleanup (lines 56 to 59), run when the component is deactivated.\<close>

definition cleanup :: "world \<Rightarrow> js_error option \<times> world" where
  "cleanup s =
     (case window s of
        None \<Rightarrow> (Some ReferenceError, s)
      | Some _ \<Rightarrow> (None, s\<lparr>subscribed := False, handler := map_option cancel (handler s)\<rparr>))"

text \<open>Activation at time \<open>t\<close>: the first render, then the effect if the render returned.\<close>

definition activate ::
  "nat \<Rightarrow> jsval \<Rightarrow> world \<Rightarrow> (js_error + OrientationResults) \<times> world" where
  "activate t arg s =
     (case useWindowOrientation arg s of
        (Inl e, s1) \<Rightarrow> (Inl e, s1)
      | (Inr r, s1) \<Rightarrow>
          (case effect t s1 of
             (Some e, s2) \<Rightarrow> (Inl e, s2)
           | (None, s2) \<Rightarrow> (Inr r, s2)))"

text \<open>
  The window is resized to \<open>dims\<close> at time \<open>t\<close> and dispatches \<^verbatim>\<open>resize\<close>: timers
  due by then run first, then every registered listener is called.
\<close>

definition resize :: "nat \<Rightarrow> int \<times> int \<Rightarrow> world \<Rightarrow> js_error option \<times> world" where
  "resize t dims s =
     (case run_timers t s of
        (Some e, s1) \<Rightarrow> (Some e, s1)
      | (None, s1) \<Rightarrow>
          (let s2 = s1\<lparr>window := Some dims\<rparr>
           in if subscribed s2 then handleResize t s2 else (None, s2)))"

fun resizes :: "(nat \<times> int \<times> int) list \<Rightarrow> world \<Rightarrow> js_error option \<times> world" where
  "resizes [] s = (None, s)"
| "resizes ((t, dims) # evs) s =
     (case resize t dims s of
        (Some e, s1) \<Rightarrow> (Some e, s1)
      | (None, s1) \<Rightarrow> resizes evs s1)"

section \<open>Sample runs\<close>

text \<open>An instance activated with no options at time 0 in a window 800 wide and 600 high.\<close>

definition mounted :: world where
  "mounted = snd (activate 0 JUndefined (unmounted (Some (800, 600))))"

text \<open>The same instance once its first debounce timer has run out.\<close>

definition settled :: world where
  "settled = snd (run_timers 400 mounted)"

text \<open>Ten resize notifications within 90 time units, the last one to 1000 by 500.\<close>

definition burst :: "(nat \<times> int \<times> int) list" where
  "burst =
     [(1000, 500, 1000), (1010, 520, 980), (1020, 560, 940), (1030, 600, 900),
      (1040, 700, 800), (1050, 750, 750), (1060, 800, 700), (1070, 900, 600),
      (1080, 950, 550), (1090, 1000, 500)]"

section \<open>Helper facts\<close>

lemma render_results:
  "fst (useWindowOrientation arg s) = Inr r \<Longrightarrow> \<exists>v. r = results v"
  by (auto simp: useWindowOrientation_def Let_def split: if_splits sum.splits prod.splits)

lemma render_first:
  assumes "cell s = None" and "fst (useWindowOrientation arg s) = Inr r"
  shows "destructure (default_options arg) = Inr (JStr (orientation_string (orientation r))) \<and>
     useWindowOrientation arg s = (Inr r, s\<lparr>cell := Some (orientation r)\<rparr>)"
  using assms
  by (auto simp: useWindowOrientation_def Let_def useState_def as_Orientation_def results_def
      split: if_splits sum.splits prod.splits)

lemma effect_no_window:
  assumes "window s = None"
  shows "effect t s = (Some ReferenceError,
     s\<lparr>handler := Some (Pending (t + 400) False), recomputes := recomputes s + 1\<rparr>)"
  using assms
  by (simp add: effect_def handleResize_def debounced_call_def recompute_def)

lemma mounted_eq:
  "mounted = \<lparr>window = Some (800, 600), cell = Some Landscape,
     handler = Some (Pending 400 False), subscribed = True, recomputes = 1\<rparr>"
  by (simp add: mounted_def activate_def useWindowOrientation_def default_options_def
     useState_def as_Orientation_def unmounted_def effect_def handleResize_def
     debounced_call_def recompute_def)

lemma settled_eq:
  "settled = \<lparr>window = Some (800, 600), cell = Some Landscape,
     handler = Some Idle, subscribed = True, recomputes = 1\<rparr>"
  by (simp add: settled_def mounted_eq run_timers_def timer_expired_def)

lemma resize_idle:
  assumes "handler s = Some Idle" and "subscribed s"
  shows "resize t dims s =
    (None, s\<lparr>window := Some dims, handler := Some (Pending (t + 400) False),
             recomputes := recomputes s + 1,
             cell := Some (if fst dims \<le> snd dims then Portrait else Landscape)\<rparr>)"
  using assms
  by (cases dims)
    (simp add: resize_def run_timers_def handleResize_def debounced_call_def recompute_def)

lemma resize_pending:
  assumes "handler s = Some (Pending D b)" and "subscribed s" and "t < D"
  shows "resize t dims s = (None, s\<lparr>window := Some dims, handler := Some (Pending D True)\<rparr>)"
  using assms
  by (simp add: resize_def run_timers_def handleResize_def debounced_call_def)

lemma resizes_pending:
  assumes "handler s = Some (Pending D b)" and "subscribed s"
    and "\<forall>ev \<in> set evs. fst ev < D"
  shows "fst (resizes evs s) = None \<and>
     recomputes (snd (resizes evs s)) = recomputes s \<and>
     cell (snd (resizes evs s)) = cell s \<and>
     subscribed (snd (resizes evs s)) \<and>
     handler (snd (resizes evs s)) = Some (Pending D (b \<or> evs \<noteq> []))"
  using assms
proof (induction evs arbitrary: s b)
  case Nil
  then show ?case by simp
next
  case (Cons ev evs)
  obtain t dims where ev: "ev = (t, dims)" by (cases ev)
  let ?s1 = "s\<lparr>window := Some dims, handler := Some (Pending D True)\<rparr>"
  have t: "t < D" using Cons.prems(3) ev by simp
  have step: "resize t dims s = (None, ?s1)"
    using resize_pending [OF Cons.prems(1,2) t] .
  have rest: "\<forall>ev \<in> set evs. fst ev < D" using Cons.prems(3) by simp
  have "handler ?s1 = Some (Pending D True)" and "subscribed ?s1"
    using Cons.prems(2) by simp_all
  from Cons.IH [OF this rest] show ?case
    by (simp add: ev step)
qed

lemma run_timers_due:
  assumes "handler s = Some (Pending D b)" and "D \<le> T" and "window s = Some dims"
  shows "fst (run_timers T s) = None \<and>
     handler (snd (run_timers T s)) = Some Idle \<and>
     recomputes (snd (run_timers T s)) = recomputes s + (if b then 1 else 0) \<and>
     cell (snd (run_timers T s)) =
       (if b then Some (if fst dims \<le> snd dims then Portrait else Landscape) else cell s)"
  using assms
  by (cases dims) (simp add: run_timers_def timer_expired_def recompute_def)

lemma window_resizes:
  "fst (resizes (ev # evs) s) = None \<Longrightarrow>
     window (snd (resizes (ev # evs) s)) = Some (snd (last (ev # evs)))"
proof (induction evs arbitrary: s ev)
  case Nil
  then show ?case
    by (cases ev)
     (auto simp: resize_def handleResize_def recompute_def Let_def run_timers_def
        split: prod.splits option.splits if_splits debounce_state.splits)
next
  case (Cons a evs)
  obtain t dims where ev: "ev = (t, dims)" by (cases ev)
  show ?case
  proof (cases "resize t dims s")
    case (Pair r s1)
    with Cons.prems ev have r: "r = None" by (cases r) simp_all
    with Cons.prems ev Pair have "fst (resizes (a # evs) s1) = None" by simp
    from Cons.IH [OF this] show ?thesis
      using Pair r ev by simp
  qed
qed

lemma resize_quiet:
  assumes "\<not> subscribed s" and "handler s = None \<or> handler s = Some Idle"
  shows "resize t dims s = (None, s\<lparr>window := Some dims\<rparr>)"
  using assms by (auto simp: resize_def run_timers_def)

lemma resizes_quiet:
  assumes "\<not> subscribed s" and "handler s = None \<or> handler s = Some Idle"
  shows "fst (resizes evs s) = None \<and>
     cell (snd (resizes evs s)) = cell s \<and>
     recomputes (snd (resizes evs s)) = recomputes s \<and>
     \<not> subscribed (snd (resizes evs s)) \<and>
     handler (snd (resizes evs s)) = handler s"
  using assms
proof (induction evs arbitrary: s)
  case Nil
  then show ?case by simp
next
  case (Cons ev evs)
  obtain t dims where ev: "ev = (t, dims)" by (cases ev)
  let ?s1 = "s\<lparr>window := Some dims\<rparr>"
  have step: "resize t dims s = (None, ?s1)"
    using resize_quiet [OF Cons.prems] .
  have "\<not> subscribed ?s1" and "handler ?s1 = None \<or> handler ?s1 = Some Idle"
    using Cons.prems by simp_all
  from Cons.IH [OF this] show ?case
    by (simp add: ev step)
qed

lemma run_timers_quiet:
  assumes "handler s = None \<or> handler s = Some Idle"
  shows "run_timers T s = (None, s)"
  using assms by (auto simp: run_timers_def)

lemma echo_defaultOrientation:
  assumes "map_of ps ''defaultOrientation'' = Some v"
    and "v \<noteq> JUndefined" and "v \<noteq> JStr ''portrait''" and "v \<noteq> JStr ''landscape''"
    and "ToString v = Inr str"
  shows "useWindowOrientation (JObj ps) s =
    (Inl (TypeError
       ((if typeof v = ''string'' then [CHR 0x22] @ str @ [CHR 0x22] else str) @ not_valid)), s)"
  using assms by (simp add: useWindowOrientation_def default_options_def)

lemma typeof_guard:
  assumes "arg \<noteq> JUndefined" and "typeof arg \<noteq> ''object''"
  shows "useWindowOrientation arg s =
    (Inl (TypeError ''The options argument must be formatted as an object.''), s)"
  using assms by (simp add: useWindowOrientation_def default_options_def)

lemma ToString_defined:
  "(\<exists>str. ToString v = Inr str) \<longleftrightarrow>
     v \<noteq> JSym \<and> (\<forall>ps. v = JObj ps \<longrightarrow> map_of ps ''toString'' = None)"
  by (cases v) simp_all

lemma resize_unsubscribed:
  assumes "\<not> subscribed s"
    and "handler s = None \<or> handler s = Some Idle \<or> handler s = Some (Pending D False)"
  shows "fst (resize t dims s) = None \<and>
     cell (snd (resize t dims s)) = cell s \<and>
     recomputes (snd (resize t dims s)) = recomputes s \<and>
     \<not> subscribed (snd (resize t dims s)) \<and>
     (handler (snd (resize t dims s)) = None \<or> handler (snd (resize t dims s)) = Some Idle \<or>
      handler (snd (resize t dims s)) = Some (Pending D False))"
  using assms
  by (cases "D \<le> t") (auto simp: resize_def run_timers_def timer_expired_def)

lemma resizes_unsubscribed:
  assumes "\<not> subscribed s"
    and "handler s = None \<or> handler s = Some Idle \<or> handler s = Some (Pending D False)"
  shows "fst (resizes evs s) = None \<and>
     cell (snd (resizes evs s)) = cell s \<and>
     recomputes (snd (resizes evs s)) = recomputes s"
  using assms
proof (induction evs arbitrary: s)
  case Nil
  then show ?case by simp
next
  case (Cons ev evs)
  obtain t dims where ev: "ev = (t, dims)" by (cases ev)
  obtain s1 where step: "resize t dims s = (None, s1)"
    using resize_unsubscribed [OF Cons.prems, of t dims] by (cases "resize t dims s") simp
  have keep: "cell s1 = cell s" "recomputes s1 = recomputes s" "\<not> subscribed s1"
    "handler s1 = None \<or> handler s1 = Some Idle \<or> handler s1 = Some (Pending D False)"
    using resize_unsubscribed [OF Cons.prems, of t dims] step by simp_all
  from Cons.IH [OF keep(3,4)] show ?case
    by (simp add: ev step keep)
qed

section \<open>The recompute function\<close>

text \<open>
  C1. With the window's inner width \<open>w\<close> and inner height \<open>h\<close>, the recompute function
  returns normally and sets the current orientation to portrait when \<open>w \<le> h\<close>, to
  landscape otherwise; a tie \<open>w = h\<close> gives portrait.
\<close>

theorem recompute_orientation:
  "recompute (s\<lparr>window := Some (w, h)\<rparr>) =
     (None, s\<lparr>window := Some (w, h),
              cell := Some (if w \<le> h then Portrait else Landscape),
              recomputes := recomputes s + 1\<rparr>)
   \<and> cell (snd (recompute (s\<lparr>window := Some (w, w)\<rparr>))) = Some Portrait"
  by (simp add: recompute_def)

section \<open>What the hook returns\<close>

text \<open>
  C2. Every OrientationResults the hook returns has \<open>portrait\<close> true exactly when its
  orientation is portrait, \<open>landscape\<close> true exactly when its orientation is landscape,
  and the two flags are never equal.
\<close>

theorem flags_follow_orientation:
  assumes "fst (useWindowOrientation arg s) = Inr r"
  shows "portrait r = (orientation r = Portrait) \<and>
     landscape r = (orientation r = Landscape) \<and>
     portrait r \<noteq> landscape r"
proof -
  from assms obtain v where r: "r = results v"
    using render_results by blast
  show ?thesis
    by (cases v) (simp_all add: r results_def)
qed

theorem flags_follow_orientation_witness:
  "fst (useWindowOrientation JUndefined (unmounted None)) =
     Inr \<lparr>orientation = Portrait, portrait = True, landscape = False\<rparr> \<and>
   portrait \<lparr>orientation = Portrait, portrait = True, landscape = False\<rparr> \<noteq>
     landscape \<lparr>orientation = Portrait, portrait = True, landscape = False\<rparr>"
proof -
  have h: "fst (useWindowOrientation JUndefined (unmounted None)) =
      Inr \<lparr>orientation = Portrait, portrait = True, landscape = False\<rparr>"
    by (simp add: useWindowOrientation_def default_options_def useState_def unmounted_def
        as_Orientation_def results_def)
  show ?thesis
    using h flags_follow_orientation [OF h] by simp
qed

text \<open>
  C6. On the first render the orientation returned is the \<open>defaultOrientation\<close> given,
  for either of the two valid values; when the option is absent from the options
  object, when the object is empty or when no options are given, it is portrait. The
  render does not read the window.
\<close>

theorem initial_orientation:
  assumes "cell s = None"
  shows "(map_of ps ''defaultOrientation'' = Some (JStr (orientation_string d)) \<longrightarrow>
       useWindowOrientation (JObj ps) s = (Inr (results d), s\<lparr>cell := Some d\<rparr>)) \<and>
     (map_of ps ''defaultOrientation'' = None \<longrightarrow>
       useWindowOrientation (JObj ps) s =
         (Inr (results Portrait), s\<lparr>cell := Some Portrait\<rparr>)) \<and>
     useWindowOrientation (JObj []) s = (Inr (results Portrait), s\<lparr>cell := Some Portrait\<rparr>) \<and>
     useWindowOrientation JUndefined s = (Inr (results Portrait), s\<lparr>cell := Some Portrait\<rparr>)"
  using assms
  by (cases d)
    (simp_all add: useWindowOrientation_def default_options_def useState_def as_Orientation_def)

theorem initial_orientation_witness:
  "cell (unmounted None) = None \<and>
   fst (useWindowOrientation (JObj [(''defaultOrientation'', JStr ''landscape'')]) (unmounted None)) =
     Inr \<lparr>orientation = Landscape, portrait = False, landscape = True\<rparr> \<and>
   fst (useWindowOrientation (JObj [(''defaultOrientation'', JStr ''portrait'')]) (unmounted None)) =
     Inr \<lparr>orientation = Portrait, portrait = True, landscape = False\<rparr> \<and>
   fst (useWindowOrientation (JObj [(''other'', JNum ''1'')]) (unmounted None)) =
     Inr \<lparr>orientation = Portrait, portrait = True, landscape = False\<rparr> \<and>
   fst (useWindowOrientation JUndefined (unmounted None)) =
     Inr \<lparr>orientation = Portrait, portrait = True, landscape = False\<rparr>"
proof -
  have c: "cell (unmounted None) = None"
    by (simp add: unmounted_def)
  show ?thesis
    using c
      initial_orientation [OF c, of "[(''defaultOrientation'', JStr ''landscape'')]" Landscape]
      initial_orientation [OF c, of "[(''defaultOrientation'', JStr ''portrait'')]" Portrait]
      initial_orientation [OF c, of "[(''other'', JNum ''1'')]" Portrait]
    by (simp add: results_def)
qed

section \<open>Validation of the options\<close>

text \<open>
  C3. A \<open>defaultOrientation\<close> that is neither \<^verbatim>\<open>"portrait"\<close> nor
  \<^verbatim>\<open>"landscape"\<close> is to be refused with a message that echoes it, in double quotes
  exactly when it is string-typed. The code does so for the number \<^verbatim>\<open>42\<close> and the
  string \<^verbatim>\<open>"sideways"\<close>. It does not for a symbol, which is not string-typed:
  building the message on lines 32 to 36 throws the runtime's own TypeError, and no
  message of the form the claim gives is produced.
\<close>

theorem symbol_defaultOrientation_not_echoed:
  \<open>useWindowOrientation (JObj [(''defaultOrientation'', JNum ''42'')]) s =
     (Inl (TypeError
        ''42 is not a valid defaultOrientation. Use "portrait" or "landscape".''), s) \<and>
   useWindowOrientation (JObj [(''defaultOrientation'', JStr ''sideways'')]) s =
     (Inl (TypeError
        ''"sideways" is not a valid defaultOrientation. Use "portrait" or "landscape".''), s) \<and>
   map_of [(''defaultOrientation'', JSym)] ''defaultOrientation'' = Some JSym \<and>
   JSym \<noteq> JStr ''portrait'' \<and> JSym \<noteq> JStr ''landscape'' \<and>
   typeof JSym \<noteq> ''string'' \<and>
   useWindowOrientation (JObj [(''defaultOrientation'', JSym)]) s = (Inl RuntimeTypeError, s)\<close>
  by (simp add: useWindowOrientation_def default_options_def not_valid_def)

text \<open>
  C4. An options argument that is not an object is to be refused with the message
  \<^verbatim>\<open>The options argument must be formatted as an object.\<close> The code refuses the
  string \<^verbatim>\<open>"foo"\<close>, the number \<^verbatim>\<open>42\<close> and \<^verbatim>\<open>true\<close> so. It does not
  refuse \<^verbatim>\<open>null\<close>, which is no object either: \<^verbatim>\<open>typeof null\<close> is
  \<^verbatim>\<open>"object"\<close>, the check on line 25 passes, and the error thrown is the runtime's,
  from the destructuring on line 28.
\<close>

theorem null_options_not_refused:
  "useWindowOrientation (JStr ''foo'') s =
     (Inl (TypeError ''The options argument must be formatted as an object.''), s) \<and>
   useWindowOrientation (JNum ''42'') s =
     (Inl (TypeError ''The options argument must be formatted as an object.''), s) \<and>
   useWindowOrientation (JBool True) s =
     (Inl (TypeError ''The options argument must be formatted as an object.''), s) \<and>
   useWindowOrientation JNull s = (Inl RuntimeTypeError, s)"
  by (simp add: useWindowOrientation_def default_options_def)

text \<open>
  C10. For \<^verbatim>\<open>null\<close> the \<^verbatim>\<open>typeof\<close> check passes, since
  \<^verbatim>\<open>typeof null\<close> is \<^verbatim>\<open>"object"\<close>; the destructuring then throws the runtime's
  TypeError, which is not the hook's error with the message
  \<^verbatim>\<open>The options argument must be formatted as an object.\<close>
\<close>

theorem null_options:
  "typeof (default_options JNull) = ''object'' \<and>
   useWindowOrientation JNull s = (Inl RuntimeTypeError, s) \<and>
   fst (useWindowOrientation JNull s) \<noteq>
     Inl (TypeError ''The options argument must be formatted as an object.'')"
  by (simp add: useWindowOrientation_def default_options_def)

text \<open>
  C9. When the render throws (options that are not an object, an invalid
  \<open>defaultOrientation\<close>, or any other error of the checks), activation ends with that
  error and the world is exactly as before: no state cell was created, the effect did
  not run, so no listener is registered and no debounce timer exists.
\<close>

theorem failed_validation_changes_nothing:
  assumes "fst (useWindowOrientation arg s) = Inl e"
  shows "useWindowOrientation arg s = (Inl e, s) \<and> activate t arg s = (Inl e, s)"
  using assms
  by (auto simp: useWindowOrientation_def activate_def Let_def
      split: if_splits sum.splits prod.splits)

theorem failed_validation_changes_nothing_witness:
  \<open>activate 0 (JStr ''foo'') (unmounted (Some (800, 600))) =
     (Inl (TypeError ''The options argument must be formatted as an object.''),
      \<lparr>window = Some (800, 600), cell = None, handler = None, subscribed = False,
         recomputes = 0\<rparr>) \<and>
   activate 0 (JObj [(''defaultOrientation'', JStr ''sideways'')]) (unmounted (Some (800, 600))) =
     (Inl (TypeError
        ''"sideways" is not a valid defaultOrientation. Use "portrait" or "landscape".''),
      \<lparr>window = Some (800, 600), cell = None, handler = None, subscribed = False,
         recomputes = 0\<rparr>)\<close>
proof -
  have a: "fst (useWindowOrientation (JStr ''foo'') (unmounted (Some (800, 600)))) =
      Inl (TypeError ''The options argument must be formatted as an object.'')"
    by (simp add: useWindowOrientation_def default_options_def)
  have b: \<open>fst (useWindowOrientation (JObj [(''defaultOrientation'', JStr ''sideways'')])
        (unmounted (Some (800, 600)))) =
      Inl (TypeError
        ''"sideways" is not a valid defaultOrientation. Use "portrait" or "landscape".'')\<close>
    by (simp add: useWindowOrientation_def default_options_def not_valid_def)
  show ?thesis
    using failed_validation_changes_nothing [OF a, of 0]
      failed_validation_changes_nothing [OF b, of 0]
    by (simp add: unmounted_def)
qed

section \<open>Activation where there is no window\<close>

text \<open>
  C5, as amended. Where no window exists, the first render with valid options does not
  throw and returns \<open>defaultOrientation\<close> as the orientation. The activation-time
  effect, when it is run there, throws a ReferenceError at its immediate recompute
  call and registers no listener; the orientation value stays equal to
  \<open>defaultOrientation\<close>, also through every later resize notification.
\<close>

theorem no_window_activation:
  assumes "window s = None" and "cell s = None" and "\<not> subscribed s"
    and "fst (useWindowOrientation arg s) = Inr r"
  shows "destructure (default_options arg) = Inr (JStr (orientation_string (orientation r))) \<and>
     cell (snd (useWindowOrientation arg s)) = Some (orientation r) \<and>
     \<not> subscribed (snd (useWindowOrientation arg s)) \<and>
     fst (effect t (snd (useWindowOrientation arg s))) = Some ReferenceError \<and>
     cell (snd (effect t (snd (useWindowOrientation arg s)))) = Some (orientation r) \<and>
     \<not> subscribed (snd (effect t (snd (useWindowOrientation arg s)))) \<and>
     fst (resizes evs (snd (effect t (snd (useWindowOrientation arg s))))) = None \<and>
     cell (snd (resizes evs (snd (effect t (snd (useWindowOrientation arg s)))))) =
       Some (orientation r)"
proof -
  let ?s1 = "s\<lparr>cell := Some (orientation r)\<rparr>"
  let ?s2 = "?s1\<lparr>handler := Some (Pending (t + 400) False), recomputes := recomputes ?s1 + 1\<rparr>"
  from render_first [OF assms(2,4)]
  have d: "destructure (default_options arg) = Inr (JStr (orientation_string (orientation r)))"
    and u: "useWindowOrientation arg s = (Inr r, ?s1)"
    by simp_all
  have w: "window ?s1 = None"
    using assms(1) by simp
  have e: "effect t ?s1 = (Some ReferenceError, ?s2)"
    using effect_no_window [OF w] .
  have q: "\<not> subscribed ?s2"
    and h: "handler ?s2 = None \<or> handler ?s2 = Some Idle \<or>
      handler ?s2 = Some (Pending (t + 400) False)"
    using assms(3) by simp_all
  show ?thesis
    using resizes_unsubscribed [OF q h, of evs] assms(3) by (simp add: d u e)
qed

theorem no_window_activation_witness:
  "window (unmounted None) = None \<and> cell (unmounted None) = None \<and>
   \<not> subscribed (unmounted None) \<and>
   fst (useWindowOrientation (JObj [(''defaultOrientation'', JStr ''landscape'')]) (unmounted None)) =
     Inr \<lparr>orientation = Landscape, portrait = False, landscape = True\<rparr> \<and>
   activate 0 (JObj [(''defaultOrientation'', JStr ''landscape'')]) (unmounted None) =
     (Inl ReferenceError,
      \<lparr>window = None, cell = Some Landscape, handler = Some (Pending 400 False),
         subscribed = False, recomputes = 1\<rparr>) \<and>
   cell (snd (resizes [(500, 600, 800)]
     (snd (activate 0 (JObj [(''defaultOrientation'', JStr ''landscape'')]) (unmounted None))))) =
     Some Landscape"
proof -
  have w: "window (unmounted None) = None" and c: "cell (unmounted None) = None"
    and q: "\<not> subscribed (unmounted None)"
    by (simp_all add: unmounted_def)
  have r: "fst (useWindowOrientation (JObj [(''defaultOrientation'', JStr ''landscape'')])
        (unmounted None)) = Inr \<lparr>orientation = Landscape, portrait = False, landscape = True\<rparr>"
    by (simp add: useWindowOrientation_def default_options_def useState_def unmounted_def
        as_Orientation_def results_def)
  have a: "activate 0 (JObj [(''defaultOrientation'', JStr ''landscape'')]) (unmounted None) =
     (Inl ReferenceError,
      \<lparr>window = None, cell = Some Landscape, handler = Some (Pending 400 False),
         subscribed = False, recomputes = 1\<rparr>)"
    by (simp add: activate_def useWindowOrientation_def default_options_def useState_def
        unmounted_def as_Orientation_def results_def effect_def handleResize_def
        debounced_call_def recompute_def)
  have z: "cell (snd (resizes [(500, 600, 800)]
       \<lparr>window = None, cell = Some Landscape, handler = Some (Pending 400 False),
          subscribed = False, recomputes = 1\<rparr>)) = Some Landscape"
    by (simp add: resize_def run_timers_def timer_expired_def)
  show ?thesis
    using w c q r a z no_window_activation [OF w c q r, of 0 "[(500, 600, 800)]"] by simp
qed

text \<open>
  C5 as stated fails: activated with no options where no window exists, the effect
  throws.
\<close>

theorem no_window_activation_counterexample:
  "fst (useWindowOrientation JUndefined (unmounted None)) =
     Inr \<lparr>orientation = Portrait, portrait = True, landscape = False\<rparr> \<and>
   fst (effect 0 (snd (useWindowOrientation JUndefined (unmounted None)))) =
     Some ReferenceError"
  by (simp add: useWindowOrientation_def default_options_def useState_def unmounted_def
      as_Orientation_def results_def effect_def handleResize_def debounced_call_def
      recompute_def)

section \<open>Debounced resize notifications\<close>

text \<open>
  C7. Let the debounced function be idle and registered, and let a burst of resize
  notifications start at time \<open>t1\<close> with every later one before \<open>t1 + 400\<close>. The first
  notification invokes the recompute function once (the leading edge); the rest of the
  burst invokes it no more; at a time \<open>T\<close> at least 400 after every notification of the
  burst it has been invoked once more exactly when the burst had a second
  notification (the trailing edge). So the burst costs at most two invocations, none
  of them throws, and the debounced function is idle again.
\<close>

theorem burst_recomputes_at_most_twice:
  assumes "handler s = Some Idle" and "subscribed s"
    and "\<forall>ev \<in> set rest. t1 \<le> fst ev \<and> fst ev < t1 + 400 \<and> fst ev + 400 \<le> T"
    and "t1 + 400 \<le> T"
  shows "fst (resize t1 d1 s) = None \<and>
     recomputes (snd (resize t1 d1 s)) = recomputes s + 1 \<and>
     fst (resizes ((t1, d1) # rest) s) = None \<and>
     recomputes (snd (resizes ((t1, d1) # rest) s)) = recomputes s + 1 \<and>
     fst (run_timers T (snd (resizes ((t1, d1) # rest) s))) = None \<and>
     recomputes (snd (run_timers T (snd (resizes ((t1, d1) # rest) s)))) =
       recomputes s + (if rest = [] then 1 else 2) \<and>
     recomputes (snd (run_timers T (snd (resizes ((t1, d1) # rest) s)))) \<le> recomputes s + 2 \<and>
     handler (snd (run_timers T (snd (resizes ((t1, d1) # rest) s)))) = Some Idle"
proof -
  let ?s1 = "s\<lparr>window := Some d1, handler := Some (Pending (t1 + 400) False),
             recomputes := recomputes s + 1,
             cell := Some (if fst d1 \<le> snd d1 then Portrait else Landscape)\<rparr>"
  let ?s2 = "snd (resizes rest ?s1)"
  have first: "resize t1 d1 s = (None, ?s1)"
    using resize_idle [OF assms(1,2)] .
  have h1: "handler ?s1 = Some (Pending (t1 + 400) False)" and sub1: "subscribed ?s1"
    using assms(2) by simp_all
  have early: "\<forall>ev \<in> set rest. fst ev < t1 + 400"
    using assms(3) by simp
  note during = resizes_pending [OF h1 sub1 early]
  have whole: "resizes ((t1, d1) # rest) s = resizes rest ?s1"
    by (simp add: first)
  have ok: "fst (resizes ((t1, d1) # rest) s) = None"
    using during whole by simp
  have win: "window ?s2 = Some (snd (last ((t1, d1) # rest)))"
    using window_resizes [OF ok] whole by simp
  have h2: "handler ?s2 = Some (Pending (t1 + 400) (rest \<noteq> []))"
    using during by simp
  note after = run_timers_due [OF h2 assms(4) win]
  show ?thesis
    using during after by (simp add: first whole)
qed

theorem burst_recomputes_at_most_twice_witness:
  "handler settled = Some Idle \<and> subscribed settled \<and> recomputes settled = 1 \<and>
   length burst = 10 \<and>
   recomputes (snd (resize 1000 (500, 1000) settled)) = 2 \<and>
   recomputes (snd (resizes burst settled)) = 2 \<and>
   recomputes (snd (run_timers 1500 (snd (resizes burst settled)))) = 3"
proof -
  have h: "handler settled = Some Idle" and sub: "subscribed settled"
    and n: "recomputes settled = 1"
    by (simp_all add: settled_eq)
  have b: "burst = (1000, 500, 1000) # tl burst"
    by (simp add: burst_def)
  have within:
    "\<forall>ev \<in> set (tl burst). 1000 \<le> fst ev \<and> fst ev < 1000 + 400 \<and> fst ev + 400 \<le> 1500"
    by (simp add: burst_def)
  have T: "(1000::nat) + 400 \<le> 1500" by simp
  have ne: "tl burst \<noteq> []" by (simp add: burst_def)
  have len: "length burst = 10" by (simp add: burst_def)
  from burst_recomputes_at_most_twice [OF h sub within T, of "(500, 1000)"]
  show ?thesis
    using h sub n ne len b by simp
qed

section \<open>Deactivation\<close>

text \<open>
  C8. In a world with a window, the cleanup returns normally, deregisters the resize
  listener and cancels what the debounced function has pending; from then on no resize
  notification and no passing of time changes the orientation value, invokes the
  recompute function or throws.
\<close>

theorem deactivation_silences_resize:
  assumes "window s \<noteq> None"
  shows "fst (cleanup s) = None \<and>
     \<not> subscribed (snd (cleanup s)) \<and>
     (handler (snd (cleanup s)) = None \<or> handler (snd (cleanup s)) = Some Idle) \<and>
     cell (snd (cleanup s)) = cell s \<and>
     fst (resizes evs (snd (cleanup s))) = None \<and>
     cell (snd (resizes evs (snd (cleanup s)))) = cell s \<and>
     recomputes (snd (resizes evs (snd (cleanup s)))) = recomputes s \<and>
     run_timers T (snd (resizes evs (snd (cleanup s)))) =
       (None, snd (resizes evs (snd (cleanup s))))"
proof -
  from assms obtain dims where w: "window s = Some dims" by auto
  let ?s1 = "s\<lparr>subscribed := False, handler := map_option cancel (handler s)\<rparr>"
  have c: "cleanup s = (None, ?s1)"
    by (simp add: cleanup_def w)
  have q1: "\<not> subscribed ?s1" by simp
  have q2: "handler ?s1 = None \<or> handler ?s1 = Some Idle"
    by (cases "handler s") (simp_all add: cancel_def)
  note quiet = resizes_quiet [OF q1 q2, of evs]
  have q3: "handler (snd (resizes evs ?s1)) = None \<or> handler (snd (resizes evs ?s1)) = Some Idle"
    using quiet q2 by simp
  show ?thesis
    using quiet q2 run_timers_quiet [OF q3] by (simp add: c)
qed

theorem deactivation_silences_resize_witness:
  "window (snd (resize 100 (600, 800) mounted)) \<noteq> None \<and>
   handler (snd (resize 100 (600, 800) mounted)) = Some (Pending 400 True) \<and>
   cell (snd (resize 100 (600, 800) mounted)) = Some Landscape \<and>
   fst (cleanup (snd (resize 100 (600, 800) mounted))) = None \<and>
   handler (snd (cleanup (snd (resize 100 (600, 800) mounted)))) = Some Idle \<and>
   cell (snd (resizes [(200, 500, 1000)] (snd (cleanup (snd (resize 100 (600, 800) mounted)))))) =
     Some Landscape \<and>
   run_timers 400
       (snd (resizes [(200, 500, 1000)] (snd (cleanup (snd (resize 100 (600, 800) mounted)))))) =
     (None, snd (resizes [(200, 500, 1000)] (snd (cleanup (snd (resize 100 (600, 800) mounted))))))"
proof -
  have r: "resize 100 (600, 800) mounted =
     (None, \<lparr>window = Some (600, 800), cell = Some Landscape,
        handler = Some (Pending 400 True), subscribed = True, recomputes = 1\<rparr>)"
    by (simp add: mounted_eq resize_def run_timers_def handleResize_def debounced_call_def)
  have w: "window (snd (resize 100 (600, 800) mounted)) \<noteq> None"
    by (simp add: r)
  show ?thesis
    using deactivation_silences_resize [OF w, of "[(200, 500, 1000)]" 400]
    by (simp add: r cleanup_def cancel_def)
qed

end
